theory Spec2Isabelle
  imports Main "HOL-Library.AList"
begin

section \<open>Text, bytes and exceptions\<close>

text \<open>
  A Python \<^verbatim>\<open>bytes\<close> value is a list of 8-bit characters. A Python \<^verbatim>\<open>str\<close> is
  represented by its UTF-8 encoding, so decoding a valid byte string and encoding it
  again are the identity on the representation.
\<close>

type_synonym bytes = string

datatype exn =
    AttributeError
  | KeyError
  | ValueError
  | UnicodeDecodeError
  | RecursionError
  | FileNotFoundError
  | FileExistsError
  | NotADirectoryError
  | IsADirectoryError
  | PermissionError
  | UnicodeEncodeError
  | OSError

definition cont_byte :: "char \<Rightarrow> bool" where
  "cont_byte c = (128 \<le> (of_char c :: nat) \<and> (of_char c :: nat) \<le> 191)"

definition in_range :: "nat \<Rightarrow> nat \<Rightarrow> char \<Rightarrow> bool" where
  "in_range lo hi c = (lo \<le> (of_char c :: nat) \<and> (of_char c :: nat) \<le> hi)"

text \<open>The strict UTF-8 decoder used by \<^verbatim>\<open>open(..., 'r', encoding='utf-8')\<close>:
  well-formed byte sequences only (no overlong forms, no surrogates, nothing above
  U+10FFFF).\<close>

fun utf8_valid :: "bytes \<Rightarrow> bool" where
  "utf8_valid [] = True"
| "utf8_valid (a # rest) =
     (if in_range 0 127 a then utf8_valid rest
      else if in_range 194 223 a then
        (case rest of b # r \<Rightarrow> cont_byte b \<and> utf8_valid r | _ \<Rightarrow> False)
      else if in_range 224 239 a then
        (case rest of
           b # c # r \<Rightarrow>
             (if in_range 224 224 a then in_range 160 191 b
              else if in_range 237 237 a then in_range 128 159 b
              else cont_byte b) \<and> cont_byte c \<and> utf8_valid r
         | _ \<Rightarrow> False)
      else if in_range 240 244 a then
        (case rest of
           b # c # d # r \<Rightarrow>
             (if in_range 240 240 a then in_range 144 191 b
              else if in_range 244 244 a then in_range 128 143 b
              else cont_byte b) \<and> cont_byte c \<and> cont_byte d \<and> utf8_valid r
         | _ \<Rightarrow> False)
      else False)"

text \<open>Text mode with the default \<^verbatim>\<open>newline=None\<close> turns \<^verbatim>\<open>\r\n\<close> and a lone
  \<^verbatim>\<open>\r\<close> into \<^verbatim>\<open>\n\<close> on reading.\<close>

fun universal_newlines :: "string \<Rightarrow> string" where
  "universal_newlines [] = []"
| "universal_newlines [c] = (if c = CHR 0x0D then [CHR 0x0A] else [c])"
| "universal_newlines (c # d # cs) =
     (if c = CHR 0x0D \<and> d = CHR 0x0A then CHR 0x0A # universal_newlines cs
      else if c = CHR 0x0D then CHR 0x0A # universal_newlines (d # cs)
      else c # universal_newlines (d # cs))"

section \<open>The file system\<close>

text \<open>
  A path is the list of its components below the root. A directory lists its entries
  in the order \<^verbatim>\<open>os.scandir\<close> reports them. Only regular files and directories occur.
\<close>

type_synonym path = "string list"

datatype node = File bytes | Dir "(string \<times> node) list"

fun stat :: "node \<Rightarrow> path \<Rightarrow> exn + node" where
  "stat n [] = Inr n"
| "stat (File b) (c # cs) = Inl NotADirectoryError"
| "stat (Dir es) (c # cs) =
     (case map_of es c of None \<Rightarrow> Inl FileNotFoundError | Some n \<Rightarrow> stat n cs)"

definition path_exists :: "node \<Rightarrow> path \<Rightarrow> bool" where
  "path_exists fs p = (case stat fs p of Inl e \<Rightarrow> False | Inr n \<Rightarrow> True)"

text \<open>\<^verbatim>\<open>with open(p, 'r', encoding='utf-8') as f: f.read()\<close>\<close>

definition read_text :: "node \<Rightarrow> path \<Rightarrow> exn + string" where
  "read_text fs p =
     (case stat fs p of
        Inl e \<Rightarrow> Inl e
      | Inr (Dir es) \<Rightarrow> Inl IsADirectoryError
      | Inr (File b) \<Rightarrow>
          if utf8_valid b then Inr (universal_newlines b) else Inl UnicodeDecodeError)"

section \<open>Responses\<close>

text \<open>
  \<open>ErrorReply code message\<close> is what a completed \<^verbatim>\<open>self.send_error(code, message)\<close>
  writes: the status line with the message as its reason, and an HTML page as body.
  \<open>Reply code headers body\<close> is \<^verbatim>\<open>send_response(code)\<close>, the \<^verbatim>\<open>send_header\<close> calls in
  order, \<^verbatim>\<open>end_headers()\<close> and \<^verbatim>\<open>wfile.write(body)\<close>.
  \<open>Mixed code headers r\<close> is written when \<^verbatim>\<open>send_response(code)\<close> and some headers were
  still in the buffer, unsent, at the time the reply \<open>r\<close> was added and everything was
  flushed together: the client reads the first status line.
  \<open>NoReply\<close>: an exception left the handler with nothing in the buffer, and the
  connection is closed with nothing sent (no status: 0).
\<close>

datatype response =
    ErrorReply nat string
  | Reply nat "(string \<times> string) list" bytes
  | Mixed nat "(string \<times> string) list" response
  | NoReply

fun status :: "response \<Rightarrow> nat" where
  "status (ErrorReply code m) = code"
| "status (Reply code hs b) = code"
| "status (Mixed code hs r) = code"
| "status NoReply = 0"

text \<open>The status line and every header line are encoded with \<^verbatim>\<open>latin-1\<close>, strictly:
  a text with a code point above U+00FF raises \<^verbatim>\<open>UnicodeEncodeError\<close>. A text has no
  such code point exactly when every byte of its UTF-8 form is below \<^verbatim>\<open>0xC4\<close>.\<close>

definition latin1_ok :: "string \<Rightarrow> bool" where
  "latin1_ok s = list_all (\<lambda>c. (of_char c :: nat) < 196) s"

text \<open>\<^verbatim>\<open>self.send_error(code, message)\<close> with nothing in the buffer: the status line is
  encoded first, so a message that cannot be encoded raises and nothing is sent.\<close>

definition send_error :: "nat \<Rightarrow> string \<Rightarrow> exn + response" where
  "send_error code message =
     (if latin1_ok message then Inr (ErrorReply code message) else Inl UnicodeEncodeError)"

text \<open>\<^verbatim>\<open>self.send_header(k, v)\<close> for each header in turn: \<open>Inr\<close> when all are in the
  buffer, \<open>Inl\<close> with those already in the buffer when one cannot be encoded.\<close>

fun send_headers ::
  "(string \<times> string) list \<Rightarrow> (string \<times> string) list \<Rightarrow>
   (string \<times> string) list + (string \<times> string) list" where
  "send_headers sent [] = Inr sent"
| "send_headers sent ((k, v) # hs) =
     (if latin1_ok (k @ '': '' @ v) then send_headers (sent @ [(k, v)]) hs else Inl sent)"

section \<open>The request handler: GET\<close>

definition index_html :: "path \<Rightarrow> path" where
  "index_html cwd = cwd @ [''webserver'', ''index.html'']"

text \<open>\<open>do_GET\<close>: only \<^verbatim>\<open>FileNotFoundError\<close> is caught; any other exception leaves the
  handler (\<open>Inl\<close>) and no response is sent.\<close>

definition do_GET :: "path \<Rightarrow> node \<Rightarrow> string \<Rightarrow> exn + response" where
  "do_GET cwd fs rpath =
     (if rpath = ''/'' \<or> rpath = ''/webserver/index.html'' \<or> rpath = ''/'' then
        (case read_text fs (index_html cwd) of
           Inr content \<Rightarrow>
             Inr (Reply 200 [(''Content-type'', ''text/html; charset=utf-8'')] content)
         | Inl FileNotFoundError \<Rightarrow> Inr (ErrorReply 404 ''index.html not found'')
         | Inl e \<Rightarrow> Inl e)
      else Inr (ErrorReply 404 ''File not found''))"

section \<open>File-system operations\<close>

text \<open>\<open>put\<close> stores a node under a path whose parent is an existing directory.\<close>

fun put :: "node \<Rightarrow> path \<Rightarrow> node \<Rightarrow> exn + node" where
  "put t [] new = Inl IsADirectoryError"
| "put (File b) (c # cs) new = Inl NotADirectoryError"
| "put (Dir es) [c] new = Inr (Dir (AList.update c new es))"
| "put (Dir es) (c # d # cs) new =
     (case map_of es c of
        None \<Rightarrow> Inl FileNotFoundError
      | Some n \<Rightarrow>
          (case put n (d # cs) new of
             Inl e \<Rightarrow> Inl e
           | Inr n' \<Rightarrow> Inr (Dir (AList.update c n' es))))"

text \<open>\<^verbatim>\<open>with open(p, 'wb') as f: f.write(data)\<close>: creates or truncates a regular file.\<close>

definition write_file :: "node \<Rightarrow> path \<Rightarrow> bytes \<Rightarrow> exn + node" where
  "write_file fs p data =
     (case stat fs p of
        Inr (Dir es) \<Rightarrow> Inl IsADirectoryError
      | _ \<Rightarrow> put fs p (File data))"

text \<open>\<^verbatim>\<open>with open(p, 'rb') as f: f.read()\<close>\<close>

definition read_bytes :: "node \<Rightarrow> path \<Rightarrow> exn + bytes" where
  "read_bytes fs p =
     (case stat fs p of
        Inl e \<Rightarrow> Inl e
      | Inr (Dir es) \<Rightarrow> Inl IsADirectoryError
      | Inr (File b) \<Rightarrow> Inr b)"

text \<open>\<^verbatim>\<open>os.mkdir\<close>\<close>

definition mkdir :: "node \<Rightarrow> path \<Rightarrow> exn + node" where
  "mkdir fs p =
     (case stat fs p of
        Inr n \<Rightarrow> Inl FileExistsError
      | Inl e \<Rightarrow> put fs p (Dir []))"

text \<open>\<^verbatim>\<open>os.makedirs(p, exist_ok=True)\<close>: missing directories along the path are
  created; a regular file on the way is an error.\<close>

fun makedirs :: "node \<Rightarrow> path \<Rightarrow> exn + node" where
  "makedirs (Dir es) [] = Inr (Dir es)"
| "makedirs (File b) [] = Inl FileExistsError"
| "makedirs (File b) (c # cs) = Inl NotADirectoryError"
| "makedirs (Dir es) (c # cs) =
     (case makedirs (case map_of es c of None \<Rightarrow> Dir [] | Some n \<Rightarrow> n) cs of
        Inl e \<Rightarrow> Inl e
      | Inr n' \<Rightarrow> Inr (Dir (AList.update c n' es)))"

text \<open>The cleanup of \<^verbatim>\<open>tempfile.TemporaryDirectory\<close>: the directory and everything
  below it is removed; a directory that is already gone is not an error.\<close>

fun rmtree :: "node \<Rightarrow> path \<Rightarrow> node" where
  "rmtree t [] = t"
| "rmtree (File b) (c # cs) = File b"
| "rmtree (Dir es) [c] = Dir (AList.delete c es)"
| "rmtree (Dir es) (c # d # cs) =
     (case map_of es c of
        None \<Rightarrow> Dir es
      | Some n \<Rightarrow> Dir (AList.update c (rmtree n (d # cs)) es))"

text \<open>\<^verbatim>\<open>tempfile.mkdtemp\<close>: candidate names are tried in turn; a name that exists is
  skipped, any other error is raised.\<close>

fun mkdtemp :: "node \<Rightarrow> path \<Rightarrow> string list \<Rightarrow> exn + (path \<times> node)" where
  "mkdtemp fs dir [] = Inl FileExistsError"
| "mkdtemp fs dir (n # ns) =
     (case mkdir fs (dir @ [n]) of
        Inr fs' \<Rightarrow> Inr (dir @ [n], fs')
      | Inl FileExistsError \<Rightarrow> mkdtemp fs dir ns
      | Inl e \<Rightarrow> Inl e)"

subsection \<open>Path strings\<close>

text \<open>\<^verbatim>\<open>s.split('/')\<close>\<close>

fun split_sep :: "string \<Rightarrow> string list" where
  "split_sep [] = [[]]"
| "split_sep (c # cs) =
     (if c = CHR ''/'' then [] # split_sep cs
      else (case split_sep cs of x # xs \<Rightarrow> (c # x) # xs | [] \<Rightarrow> [[c]]))"

text \<open>\<^verbatim>\<open>'/'.join(xs)\<close>\<close>

fun join_sep :: "string list \<Rightarrow> string" where
  "join_sep [] = []"
| "join_sep [x] = x"
| "join_sep (x # y # xs) = x @ CHR ''/'' # join_sep (y # xs)"

definition path_str :: "path \<Rightarrow> string" where
  "path_str p = concat (map (\<lambda>c. CHR ''/'' # c) p)"

text \<open>The longest file name the file system takes, in bytes (Linux). The limit on the
  length of a whole path is not modelled.\<close>

definition NAME_MAX :: nat where
  "NAME_MAX = 255"

text \<open>How the operating system walks the directory part of a path string, from the
  directory \<open>cur\<close>: empty components and \<^verbatim>\<open>.\<close> stay, \<^verbatim>\<open>..\<close> goes up, any other name
  must be a directory, and a name that is too long is an error.\<close>

fun walk_path :: "node \<Rightarrow> path \<Rightarrow> string list \<Rightarrow> exn + path" where
  "walk_path fs cur [] = Inr cur"
| "walk_path fs cur (c # cs) =
     (if c = [] \<or> c = ''.'' then walk_path fs cur cs
      else if c = ''..'' then walk_path fs (butlast cur) cs
      else if NAME_MAX < length c then Inl OSError
      else (case stat fs (cur @ [c]) of
              Inl e \<Rightarrow> Inl e
            | Inr (File b) \<Rightarrow> Inl NotADirectoryError
            | Inr (Dir es) \<Rightarrow> walk_path fs (cur @ [c]) cs))"

text \<open>Opening \<^verbatim>\<open>os.path.join(dir, name)\<close> for writing, where \<open>name\<close> does not start
  with a separator: the file is created empty. The result is the place of the file.\<close>

definition open_new :: "node \<Rightarrow> path \<Rightarrow> string \<Rightarrow> exn + (path \<times> node)" where
  "open_new fs dir name =
     (if CHR 0x00 \<in> set name then Inl ValueError
      else
        (case walk_path fs dir (butlast (split_sep name)) of
           Inl e \<Rightarrow> Inl e
         | Inr parent \<Rightarrow>
             (let leaf = last (split_sep name) in
              if leaf = [] \<or> leaf = ''.'' \<or> leaf = ''..'' then Inl IsADirectoryError
              else if NAME_MAX < length leaf then Inl OSError
              else
                (case write_file fs (parent @ [leaf]) [] of
                   Inl e \<Rightarrow> Inl e
                 | Inr fs' \<Rightarrow> Inr (parent @ [leaf], fs')))))"

subsection \<open>Walking a tree\<close>

definition dirnames :: "(string \<times> node) list \<Rightarrow> string list" where
  "dirnames es = map fst (filter (\<lambda>(k, n). case n of Dir ds \<Rightarrow> True | File b \<Rightarrow> False) es)"

definition filenames :: "(string \<times> node) list \<Rightarrow> string list" where
  "filenames es = map fst (filter (\<lambda>(k, n). case n of Dir ds \<Rightarrow> False | File b \<Rightarrow> True) es)"

text \<open>\<^verbatim>\<open>os.walk(top)\<close>, top-down: one triple \<^verbatim>\<open>(root, dirs, files)\<close> per directory, a
  directory before its subdirectories. A start that is not a directory yields nothing.\<close>

fun walk_node :: "path \<Rightarrow> node \<Rightarrow> (path \<times> string list \<times> string list) list"
  and walk_entries :: "path \<Rightarrow> (string \<times> node) list \<Rightarrow> (path \<times> string list \<times> string list) list"
where
  "walk_node root (File b) = []"
| "walk_node root (Dir es) = (root, dirnames es, filenames es) # walk_entries root es"
| "walk_entries root [] = []"
| "walk_entries root ((k, File b) # es) = walk_entries root es"
| "walk_entries root ((k, Dir ds) # es) = walk_node (root @ [k]) (Dir ds) @ walk_entries root es"

definition os_walk :: "node \<Rightarrow> path \<Rightarrow> (path \<times> string list \<times> string list) list" where
  "os_walk fs start = (case stat fs start of Inl e \<Rightarrow> [] | Inr n \<Rightarrow> walk_node start n)"

fun common_prefix :: "path \<Rightarrow> path \<Rightarrow> path" where
  "common_prefix (x # xs) (y # ys) = (if x = y then x # common_prefix xs ys else [])"
| "common_prefix xs ys = []"

text \<open>\<^verbatim>\<open>os.path.relpath(p, start)\<close> on absolute, normalised paths.\<close>

definition relpath :: "path \<Rightarrow> path \<Rightarrow> string" where
  "relpath p start =
     (let i = length (common_prefix start p);
          rel_list = replicate (length start - i) ''..'' @ drop i p
      in if rel_list = [] then ''.'' else join_sep rel_list)"

section \<open>The archive\<close>

text \<open>An archive is the list of its members, name and content, in the order they were
  written. \<^verbatim>\<open>zipf.write(file_path, arcname)\<close> reads the file; for a directory it adds
  an empty member whose name ends in a separator.\<close>

type_synonym archive = "(string \<times> bytes) list"

definition zip_write :: "node \<Rightarrow> path \<Rightarrow> string \<Rightarrow> exn + (string \<times> bytes)" where
  "zip_write fs file_path arcname =
     (case stat fs file_path of
        Inl e \<Rightarrow> Inl e
      | Inr (Dir es) \<Rightarrow> Inr (arcname @ ''/'', [])
      | Inr (File b) \<Rightarrow> Inr (arcname, b))"

text \<open>The inner loop, \<^verbatim>\<open>for file in files\<close>.\<close>

fun zip_files :: "node \<Rightarrow> path \<Rightarrow> path \<Rightarrow> string list \<Rightarrow> exn + archive" where
  "zip_files fs start root [] = Inr []"
| "zip_files fs start root (file # files) =
     (case zip_write fs (root @ [file]) (relpath (root @ [file]) start) of
        Inl e \<Rightarrow> Inl e
      | Inr m \<Rightarrow>
          (case zip_files fs start root files of
             Inl e \<Rightarrow> Inl e
           | Inr ms \<Rightarrow> Inr (m # ms)))"

text \<open>The outer loop, \<^verbatim>\<open>for root, dirs, files in os.walk(chatgpt_output_dir)\<close>.\<close>

fun zip_walk :: "node \<Rightarrow> path \<Rightarrow> (path \<times> string list \<times> string list) list \<Rightarrow> exn + archive" where
  "zip_walk fs start [] = Inr []"
| "zip_walk fs start ((root, dirs, files) # rest) =
     (case zip_files fs start root files of
        Inl e \<Rightarrow> Inl e
      | Inr ms \<Rightarrow>
          (case zip_walk fs start rest of
             Inl e \<Rightarrow> Inl e
           | Inr ms' \<Rightarrow> Inr (ms @ ms')))"

section \<open>Numbers as text\<close>

definition digit_char :: "nat \<Rightarrow> char" where
  "digit_char d = ''0123456789'' ! d"

text \<open>\<^verbatim>\<open>str(n)\<close> for a natural number.\<close>

function str_nat :: "nat \<Rightarrow> string" where
  "str_nat n = (if n < 10 then [digit_char n] else str_nat (n div 10) @ [digit_char (n mod 10)])"
  by pat_completeness auto
termination
  by (relation "measure id") auto

declare str_nat.simps [simp del]

section \<open>The error page\<close>

text \<open>\<^verbatim>\<open>html.escape(s, quote=False)\<close>\<close>

fun html_escape :: "string \<Rightarrow> string" where
  "html_escape [] = []"
| "html_escape (c # cs) =
     (if c = CHR ''&'' then ''&amp;''
      else if c = CHR ''<'' then ''&lt;''
      else if c = CHR ''>'' then ''&gt;''
      else [c]) @ html_escape cs"

text \<open>The long text of the status codes the handlers use.\<close>

definition explain :: "nat \<Rightarrow> string" where
  "explain code =
     (if code = 400 then ''Bad request syntax or unsupported method''
      else if code = 404 then ''Nothing matches the given URI''
      else if code = 500 then ''Server got itself in trouble''
      else ''???'')"

text \<open>The body \<^verbatim>\<open>send_error\<close> writes: \<^verbatim>\<open>DEFAULT_ERROR_MESSAGE\<close> filled with the code,
  the escaped message and the escaped long text.\<close>

definition error_page :: "nat \<Rightarrow> string \<Rightarrow> bytes" where
  "error_page code message =
     ''<!DOCTYPE HTML>'' @ [CHR 0x0A] @
     ''<html lang='' @ [CHR 0x22] @ ''en'' @ [CHR 0x22] @ ''>'' @ [CHR 0x0A] @
     ''    <head>'' @ [CHR 0x0A] @
     ''        <meta charset='' @ [CHR 0x22] @ ''utf-8'' @ [CHR 0x22] @ ''>'' @ [CHR 0x0A] @
     ''        <title>Error response</title>'' @ [CHR 0x0A] @
     ''    </head>'' @ [CHR 0x0A] @
     ''    <body>'' @ [CHR 0x0A] @
     ''        <h1>Error response</h1>'' @ [CHR 0x0A] @
     ''        <p>Error code: '' @ str_nat code @ ''</p>'' @ [CHR 0x0A] @
     ''        <p>Message: '' @ html_escape message @ ''.</p>'' @ [CHR 0x0A] @
     ''        <p>Error code explanation: '' @ str_nat code @ '' - '' @
       html_escape (explain code) @ ''.</p>'' @ [CHR 0x0A] @
     ''    </body>'' @ [CHR 0x0A] @
     ''</html>'' @ [CHR 0x0A]"

text \<open>The body the client receives.\<close>

fun body_of :: "response \<Rightarrow> bytes" where
  "body_of (ErrorReply code message) = error_page code message"
| "body_of (Reply code hs b) = b"
| "body_of (Mixed code hs r) = body_of r"
| "body_of NoReply = []"

text \<open>\<open>contains b x\<close>: the bytes \<open>x\<close> occur in \<open>b\<close>.\<close>

fun contains :: "string \<Rightarrow> string \<Rightarrow> bool" where
  "contains [] x = (x = [])"
| "contains (c # cs) x = (take (length x) (c # cs) = x \<or> contains cs x)"

section \<open>The request handler: POST\<close>

subsection \<open>What the handler is given\<close>

text \<open>One part of the parsed multipart body, as \<^verbatim>\<open>cgi.FieldStorage\<close> presents it:
  \<^verbatim>\<open>name\<close>, \<^verbatim>\<open>filename\<close>, \<^verbatim>\<open>value\<close> and the bytes that \<^verbatim>\<open>file.read()\<close> returns.\<close>

record item =
  i_name :: string
  i_filename :: "string option"
  i_value :: string
  i_file :: bytes

type_synonym form = "item list"

text \<open>\<^verbatim>\<open>item.value\<close>: text for a part without a filename, the raw bytes for a part
  with one.\<close>

datatype pyval = Str string | Bytes bytes

definition field_value :: "item \<Rightarrow> pyval" where
  "field_value i = (if i_filename i = None then Str (i_value i) else Bytes (i_file i))"

text \<open>The bytes a process receives for an argument.\<close>

fun fsencode :: "pyval \<Rightarrow> bytes" where
  "fsencode (Str s) = s"
| "fsencode (Bytes b) = b"

definition hex_digit :: "nat \<Rightarrow> char" where
  "hex_digit d = ''0123456789abcdef'' ! d"

text \<open>\<^verbatim>\<open>repr(b)\<close> for bytes: the quote is a double quote when the bytes hold a single
  quote and no double quote.\<close>

definition repr_byte :: "char \<Rightarrow> char \<Rightarrow> string" where
  "repr_byte q c =
     (if c = q \<or> c = CHR 0x5C then [CHR 0x5C, c]
      else if c = CHR 0x09 then [CHR 0x5C, CHR ''t'']
      else if c = CHR 0x0A then [CHR 0x5C, CHR ''n'']
      else if c = CHR 0x0D then [CHR 0x5C, CHR ''r'']
      else if (of_char c :: nat) < 32 \<or> 127 \<le> (of_char c :: nat) then
        [CHR 0x5C, CHR ''x'', hex_digit ((of_char c :: nat) div 16),
         hex_digit ((of_char c :: nat) mod 16)]
      else [c])"

definition bytes_repr :: "bytes \<Rightarrow> string" where
  "bytes_repr b =
     (let q = (if CHR 0x27 \<in> set b \<and> CHR 0x22 \<notin> set b then CHR 0x22 else CHR 0x27)
      in CHR ''b'' # q # concat (map (repr_byte q) b) @ [q])"

text \<open>What an f-string puts in place of \<^verbatim>\<open>{v}\<close>.\<close>

fun fstr :: "pyval \<Rightarrow> string" where
  "fstr (Str s) = s"
| "fstr (Bytes b) = bytes_repr b"

text \<open>\<^verbatim>\<open>key in form\<close>\<close>

definition form_has :: "form \<Rightarrow> string \<Rightarrow> bool" where
  "form_has form key = list_ex (\<lambda>i. i_name i = key) form"

text \<open>\<^verbatim>\<open>form[key]\<close> is the part of that name, or the list of them when there are
  several; a list has neither \<^verbatim>\<open>value\<close> nor \<^verbatim>\<open>filename\<close>.\<close>

datatype field = Single item | Several "item list"

definition form_get :: "form \<Rightarrow> string \<Rightarrow> exn + field" where
  "form_get form key =
     (case filter (\<lambda>i. i_name i = key) form of
        [] \<Rightarrow> Inl KeyError
      | [x] \<Rightarrow> Inr (Single x)
      | x # y # xs \<Rightarrow> Inr (Several (x # y # xs)))"

record request =
  req_path :: string
  content_type :: "string option"
  form_data :: "exn + form"

text \<open>\<open>content_type\<close> is \<^verbatim>\<open>self.headers['content-type']\<close>, \<open>None\<close> when the header is
  absent; \<open>form_data\<close> is what \<^verbatim>\<open>cgi.FieldStorage\<close> makes of the body.\<close>

datatype json_result = JsonOk | JSONDecodeError string | JsonRaises exn

datatype proc_result = Completed int string string | TimeoutExpired | ProcRaises exn

text \<open>
  The surroundings of the handler. The converter is opaque: \<open>run_proc cmd cwd timeout\<close>
  gives the outcome of the process and the file system it leaves. \<open>json_load\<close> is
  \<^verbatim>\<open>json.load\<close> on decoded text, \<open>zip_encode\<close> the bytes of a deflated archive,
  \<open>exc_text\<close> is \<^verbatim>\<open>str(e)\<close>.
\<close>

record world =
  getcwd :: path
  gettempdir :: path
  candidate_names :: "string list"
  json_load :: "string \<Rightarrow> json_result"
  run_proc :: "string list \<Rightarrow> path \<Rightarrow> nat \<Rightarrow> node \<Rightarrow> proc_result \<times> node"
  zip_encode :: "archive \<Rightarrow> bytes"
  exc_text :: "exn \<Rightarrow> string"

text \<open>The state the handler changes: the file system, and a record of the processes
  it has started (command, timeout, outcome and the file system the process left), of
  the temporary directories it has created and of the archive files it has opened for
  writing.\<close>

record state =
  disk :: node
  runs :: "(string list \<times> nat \<times> proc_result \<times> node) list"
  tempdirs :: "path list"
  archives :: "path list"

subsection \<open>Library calls\<close>

definition startswith :: "string \<Rightarrow> string \<Rightarrow> bool" where
  "startswith s p = (take (length p) s = p)"

text \<open>\<^verbatim>\<open>a or b\<close> on strings\<close>

definition py_or :: "string \<Rightarrow> string \<Rightarrow> string" where
  "py_or a b = (if a \<noteq> [] then a else b)"

text \<open>\<^verbatim>\<open>subprocess.run(cmd, capture_output=True, text=True, cwd=os.getcwd(), timeout=t)\<close>:
  an argument with a NUL character is refused before any process is started.\<close>

definition subprocess_run :: "world \<Rightarrow> string list \<Rightarrow> nat \<Rightarrow> state \<Rightarrow> proc_result \<times> state" where
  "subprocess_run w cmd t s =
     (if list_ex (\<lambda>a. CHR 0x00 \<in> set a) cmd then (ProcRaises ValueError, s)
      else
        (case run_proc w cmd (getcwd w) t (disk s) of
           (r, fs') \<Rightarrow> (r, s\<lparr>disk := fs', runs := runs s @ [(cmd, t, r, fs')]\<rparr>)))"

text \<open>\<^verbatim>\<open>with open(p, 'r', encoding='utf-8') as f: json.load(f)\<close>\<close>

definition validate_json :: "world \<Rightarrow> node \<Rightarrow> path \<Rightarrow> json_result" where
  "validate_json w fs p =
     (case read_text fs p of Inl e \<Rightarrow> JsonRaises e | Inr text \<Rightarrow> json_load w text)"

subsection \<open>The handler\<close>

definition input_file :: "path \<Rightarrow> path" where
  "input_file temp_dir = temp_dir @ [''conversations.json'']"

definition output_dir :: "path \<Rightarrow> path" where
  "output_dir temp_dir = temp_dir @ [''output'']"

definition chatgpt_output_dir :: "path \<Rightarrow> path" where
  "chatgpt_output_dir temp_dir = output_dir temp_dir @ [''chatgpt'']"

definition zip_name :: "string \<Rightarrow> string" where
  "zip_name user_id = ''chatgpt_converted_'' @ user_id @ ''.zip''"

text \<open>The command of lines 85 to 90, with the bytes the process gets as the value of
  \<^verbatim>\<open>--userid\<close>.\<close>

definition convert_cmd :: "string \<Rightarrow> path \<Rightarrow> string list" where
  "convert_cmd user_id temp_dir =
     [''uv'', ''run'', ''convert_chatgpt.py'',
      ''--userid'', user_id,
      ''--output-dir'', path_str (output_dir temp_dir),
      path_str (input_file temp_dir)]"

text \<open>The arguments of the three \<^verbatim>\<open>send_header\<close> calls of lines 131 to 134, where
  \<open>user_id\<close> is what the f-string makes of the value; \<open>send_zip\<close> below sends them
  and can fail on each.\<close>

definition zip_headers :: "string \<Rightarrow> bytes \<Rightarrow> (string \<times> string) list" where
  "zip_headers user_id zip_content =
     [(''Content-Type'', ''application/zip''),
      (''Content-Disposition'',
         ''attachment; filename='' @ [CHR 0x22] @ ''chatgpt_converted_'' @ user_id @ ''.zip'' @ [CHR 0x22]),
      (''Content-Length'', str_nat (length zip_content))]"

text \<open>Lines 139 to 142, the \<^verbatim>\<open>except Exception\<close> clause:
  \<^verbatim>\<open>self.send_error(500, f"Internal server error: {str(e)}")\<close>. The text of an exception
  is ASCII, except that an error of the file system quotes the path it was raised for;
  when that text cannot be encoded, \<^verbatim>\<open>send_error\<close> raises inside the clause and the
  exception leaves \<^verbatim>\<open>do_POST\<close>.\<close>

definition os_error :: "exn \<Rightarrow> bool" where
  "os_error e =
     (e = FileNotFoundError \<or> e = FileExistsError \<or> e = NotADirectoryError \<or>
      e = IsADirectoryError \<or> e = PermissionError \<or> e = OSError)"

definition internal_error :: "world \<Rightarrow> exn \<Rightarrow> response" where
  "internal_error w e =
     (let message = ''Internal server error: '' @ exc_text w e in
      if os_error e \<and> \<not> latin1_ok message then NoReply else ErrorReply 500 message)"

text \<open>Lines 130 to 136. When a header cannot be encoded, \<^verbatim>\<open>send_header\<close> raises while
  the status line and the earlier headers are in the buffer; the exception reaches the
  \<^verbatim>\<open>except\<close> clause of \<^verbatim>\<open>do_POST\<close>, whose error reply is added to that buffer and
  flushed with it. The text of that exception is plain ASCII.\<close>

definition send_zip :: "world \<Rightarrow> string \<Rightarrow> bytes \<Rightarrow> response" where
  "send_zip w user_id zip_content =
     (case send_headers [] (zip_headers user_id zip_content) of
        Inr hs \<Rightarrow> Reply 200 hs zip_content
      | Inl sent \<Rightarrow>
          Mixed 200 sent (internal_error w UnicodeEncodeError))"

text \<open>Lines 112 to 136: the archive is created, filled from the walk, closed, read
  back and sent. While the archive is open its file is kept empty.\<close>

definition package :: "world \<Rightarrow> pyval \<Rightarrow> path \<Rightarrow> state \<Rightarrow> (exn + response) \<times> state" where
  "package w user_id temp_dir s =
     (if \<not> path_exists (disk s) (chatgpt_output_dir temp_dir) then
        (send_error 500 ''No output files generated'', s)
      else
        (case open_new (disk s) temp_dir (zip_name (fstr user_id)) of
           Inl e \<Rightarrow> (Inl e, s)
         | Inr (zip_path, fs1) \<Rightarrow>
             (let s1 = s\<lparr>disk := fs1, archives := archives s @ [zip_path]\<rparr> in
              case zip_walk fs1 (chatgpt_output_dir temp_dir)
                     (os_walk fs1 (chatgpt_output_dir temp_dir)) of
                Inl e \<Rightarrow> (Inl e, s1)
              | Inr members \<Rightarrow>
                  (case write_file fs1 zip_path (zip_encode w members) of
                     Inl e \<Rightarrow> (Inl e, s1)
                   | Inr fs2 \<Rightarrow>
                       (case read_bytes fs2 zip_path of
                          Inl e \<Rightarrow> (Inl e, s1\<lparr>disk := fs2\<rparr>)
                        | Inr zip_content \<Rightarrow>
                            (Inr (send_zip w (fstr user_id) zip_content),
                             s1\<lparr>disk := fs2\<rparr>))))))"

text \<open>Lines 83 to 110: the converter is run and its outcome sorted.\<close>

definition run_conversion :: "world \<Rightarrow> pyval \<Rightarrow> path \<Rightarrow> state \<Rightarrow> (exn + response) \<times> state" where
  "run_conversion w user_id temp_dir s =
     (case subprocess_run w (convert_cmd (fsencode user_id) temp_dir) 60 s of
        (Completed returncode out err, s') \<Rightarrow>
          if returncode \<noteq> 0 then
            (send_error 500
               (''Conversion error: '' @ py_or err (py_or out ''Conversion failed'')), s')
          else package w user_id temp_dir s'
      | (TimeoutExpired, s') \<Rightarrow> (send_error 500 ''Conversion timeout'', s')
      | (ProcRaises FileNotFoundError, s') \<Rightarrow>
          (send_error 500 ''uv command not found. Please install uv.'', s')
      | (ProcRaises e, s') \<Rightarrow> (Inl e, s'))"

text \<open>Lines 66 to 136, the body of the \<^verbatim>\<open>with\<close> statement.\<close>

definition convert :: "world \<Rightarrow> pyval \<Rightarrow> item \<Rightarrow> path \<Rightarrow> state \<Rightarrow> (exn + response) \<times> state" where
  "convert w user_id file_item temp_dir s =
     (case write_file (disk s) (input_file temp_dir) (i_file file_item) of
        Inl e \<Rightarrow> (Inl e, s)
      | Inr fs1 \<Rightarrow>
          (case validate_json w fs1 (input_file temp_dir) of
             JSONDecodeError detail \<Rightarrow>
               (send_error 400 (''Invalid JSON file: '' @ detail), s\<lparr>disk := fs1\<rparr>)
           | JsonRaises e \<Rightarrow> (Inl e, s\<lparr>disk := fs1\<rparr>)
           | JsonOk \<Rightarrow>
               (case makedirs fs1 (output_dir temp_dir) of
                  Inl e \<Rightarrow> (Inl e, s\<lparr>disk := fs1\<rparr>)
                | Inr fs2 \<Rightarrow> run_conversion w user_id temp_dir (s\<lparr>disk := fs2\<rparr>))))"

text \<open>\<^verbatim>\<open>with tempfile.TemporaryDirectory() as temp_dir\<close>: the directory is removed when
  the body is left, whether by falling off its end, by \<^verbatim>\<open>return\<close> or by an exception.\<close>

definition with_tempdir ::
  "world \<Rightarrow> (path \<Rightarrow> state \<Rightarrow> (exn + response) \<times> state) \<Rightarrow> state \<Rightarrow> (exn + response) \<times> state" where
  "with_tempdir w body s =
     (case mkdtemp (disk s) (gettempdir w) (candidate_names w) of
        Inl e \<Rightarrow> (Inl e, s)
      | Inr (temp_dir, fs1) \<Rightarrow>
          (case body temp_dir (s\<lparr>disk := fs1, tempdirs := tempdirs s @ [temp_dir]\<rparr>) of
             (r, s') \<Rightarrow> (r, s'\<lparr>disk := rmtree (disk s') temp_dir\<rparr>)))"

text \<open>Lines 35 to 136, the body of the \<^verbatim>\<open>try\<close> statement. What the handler prints
  on the console is left out. \<^verbatim>\<open>user_id\<close> is \<^verbatim>\<open>form['userId'].value\<close>: text, or bytes when
  the part was sent with a filename.\<close>

definition handle_convert :: "world \<Rightarrow> request \<Rightarrow> state \<Rightarrow> (exn + response) \<times> state" where
  "handle_convert w req s =
     (case content_type req of
        None \<Rightarrow> (Inl AttributeError, s)
      | Some ct \<Rightarrow>
          if \<not> startswith ct ''multipart/form-data'' then
            (send_error 400 ''Expected multipart/form-data'', s)
          else
            (case form_data req of
               Inl e \<Rightarrow> (Inl e, s)
             | Inr form \<Rightarrow>
                 if \<not> form_has form ''userId'' then
                   (send_error 400 ''Missing userId field'', s)
                 else
                   (case form_get form ''userId'' of
                      Inl e \<Rightarrow> (Inl e, s)
                    | Inr (Several xs) \<Rightarrow> (Inl AttributeError, s)
                    | Inr (Single u) \<Rightarrow>
                        if \<not> form_has form ''chatFile'' then
                          (send_error 400 ''Missing chatFile field'', s)
                        else
                          (case form_get form ''chatFile'' of
                             Inl e \<Rightarrow> (Inl e, s)
                           | Inr (Several xs) \<Rightarrow> (Inl AttributeError, s)
                           | Inr (Single file_item) \<Rightarrow>
                               if i_filename file_item = None \<or> i_filename file_item = Some [] then
                                 (send_error 400 ''No file selected'', s)
                               else with_tempdir w (convert w (field_value u) file_item) s))))"

definition do_POST :: "world \<Rightarrow> request \<Rightarrow> state \<Rightarrow> response \<times> state" where
  "do_POST w req s =
     (if req_path req = ''/convert'' then
        (case handle_convert w req s of
           (Inr r, s') \<Rightarrow> (r, s')
         | (Inl e, s') \<Rightarrow> (internal_error w e, s'))
      else (ErrorReply 404 ''Endpoint not found'', s))"

section \<open>The launcher\<close>

text \<open>\<^verbatim>\<open>str(n)\<close> for an integer.\<close>

definition str_int :: "int \<Rightarrow> string" where
  "str_int i = (if i < 0 then CHR ''-'' # str_nat (nat (- i)) else str_nat (nat i))"

text \<open>\<^verbatim>\<open>', '.join(xs)\<close>\<close>

fun join_comma :: "string list \<Rightarrow> string" where
  "join_comma [] = []"
| "join_comma [x] = x"
| "join_comma (x # y # xs) = x @ '', '' @ join_comma (y # xs)"

text \<open>How a call of \<^verbatim>\<open>subprocess.run\<close> without a timeout ends: the process exits, the
  user interrupts, or the call raises.\<close>

datatype run_outcome = Exited int | Interrupted | Failed exn

text \<open>What leaves a function other than its value: an exception, or
  \<^verbatim>\<open>KeyboardInterrupt\<close>, which \<^verbatim>\<open>except Exception\<close> does not catch.\<close>

datatype raised = Exc exn | KbdInterrupt

datatype effect =
    Print string
  | Run "string list"
  | StartTimer nat string
  | Traceback raised

record launcher_world =
  os_path_exists :: "string \<Rightarrow> bool"
  uv_version :: run_outcome
  argv :: "string list"
  int_of :: "string \<Rightarrow> int option"
  executable :: string
  server :: run_outcome
  str_exc :: "exn \<Rightarrow> string"

text \<open>\<open>int_of\<close> is \<^verbatim>\<open>int(s)\<close>, \<open>None\<close> for \<^verbatim>\<open>ValueError\<close>; \<open>uv_version\<close> and \<open>server\<close>
  are the outcomes of the two processes the launcher runs.\<close>

definition required_files :: "string list" where
  "required_files = [''webserver/index.html'', ''convert_chatgpt.py'', ''webserver/server.py'']"

definition check_dependencies :: "launcher_world \<Rightarrow> (raised + bool) \<times> effect list" where
  "check_dependencies w =
     (let missing_files = filter (\<lambda>file. \<not> os_path_exists w file) required_files in
      if missing_files \<noteq> [] then
        (Inr False, [Print (''Error: Missing required files: '' @ join_comma missing_files)])
      else
        (case uv_version w of
           Exited rc \<Rightarrow>
             if rc \<noteq> 0 then
               (Inr False,
                [Run [''uv'', ''--version''],
                 Print ''Warning: 'uv' command not found. Make sure uv is installed and in your PATH.'',
                 Print ''You can install it with: pip install uv''])
             else (Inr True, [Run [''uv'', ''--version'']])
         | Failed FileNotFoundError \<Rightarrow>
             (Inr False,
              [Run [''uv'', ''--version''],
               Print ''Warning: 'uv' command not found. Make sure uv is installed and in your PATH.'',
               Print ''You can install it with: pip install uv''])
         | Failed e \<Rightarrow> (Inl (Exc e), [Run [''uv'', ''--version'']])
         | Interrupted \<Rightarrow> (Inl KbdInterrupt, [Run [''uv'', ''--version'']])))"

definition banner :: "effect list" where
  "banner = [Print ''ChatGPT to Open-WebUI Converter Web Server'', Print (replicate 45 CHR ''='')]"

definition server_cmd :: "launcher_world \<Rightarrow> int \<Rightarrow> string list" where
  "server_cmd w port = [executable w, ''webserver/server.py'', ''--port'', str_int port]"

text \<open>Lines 63 to 80 of \<^verbatim>\<open>main\<close>, once the port is known. Starting the timer is an
  effect; what \<^verbatim>\<open>open_browser\<close> does two seconds later, on its own thread, is left out.\<close>

definition start_server :: "launcher_world \<Rightarrow> int \<Rightarrow> (raised + int) \<times> effect list" where
  "start_server w port =
     (let url = ''http://localhost:'' @ str_int port;
          before =
            [StartTimer 2 url,
             Print (CHR 0x0A # ''Starting web server on port '' @ str_int port @ ''...''),
             Print (''Access the converter at: '' @ url),
             Print (''Press Ctrl+C to stop the server'' @ [CHR 0x0A]),
             Run (server_cmd w port)]
      in case server w of
           Exited rc \<Rightarrow> (Inr 0, before)
         | Interrupted \<Rightarrow> (Inr 0, before @ [Print (CHR 0x0A # ''Server stopped by user.'')])
         | Failed e \<Rightarrow> (Inr 1, before @ [Print (''Error starting server: '' @ str_exc w e)]))"

definition main :: "launcher_world \<Rightarrow> (raised + int) \<times> effect list" where
  "main w =
     (case check_dependencies w of
        (Inl r, out) \<Rightarrow> (Inl r, banner @ out)
      | (Inr ok, out) \<Rightarrow>
          if \<not> ok then
            (Inr 1, banner @ out @ [Print (CHR 0x0A # ''Please fix the above issues and try again.'')])
          else
            (case argv w of
               script # arg # rest \<Rightarrow>
                 (case int_of w arg of
                    None \<Rightarrow> (Inr 1, banner @ out @ [Print (''Invalid port number: '' @ arg)])
                  | Some port \<Rightarrow>
                      (case start_server w port of (r, out') \<Rightarrow> (r, banner @ out @ out')))
             | _ \<Rightarrow>
                 (case start_server w 3010 of (r, out') \<Rightarrow> (r, banner @ out @ out'))))"

text \<open>\<^verbatim>\<open>sys.exit(main())\<close>: the exit status of the process. An exception that nothing
  catches is reported by the interpreter with a traceback, and the status is 1; after an
  uncaught \<^verbatim>\<open>KeyboardInterrupt\<close> it is 130.\<close>

definition launcher :: "launcher_world \<Rightarrow> int \<times> effect list" where
  "launcher w =
     (case main w of
        (Inr code, out) \<Rightarrow> (code, out)
      | (Inl (Exc e), out) \<Rightarrow> (1, out @ [Traceback (Exc e)])
      | (Inl KbdInterrupt, out) \<Rightarrow> (130, out @ [Traceback KbdInterrupt]))"

section \<open>The files under a directory\<close>





section \<open>Example surroundings\<close>

definition fs0 :: node where
  "fs0 = Dir [(''tmp'', Dir [])]"

definition fs_converted :: node where
  "fs_converted =
     Dir [(''tmp'', Dir [(''tmpa'',
        Dir [(''conversations.json'', File ''{}''),
             (''output'', Dir [(''chatgpt'',
                Dir [(''a.json'', File ''[]''),
                     (''sub'', Dir [(''b.json'', File ''[1]'')])])])])])]"

text \<open>A converter stub that ends as \<open>r\<close> and leaves \<open>fs_converted\<close>; a JSON parser that
  accepts the empty object only.\<close>

definition stub_world :: "proc_result \<Rightarrow> world" where
  "stub_world r =
     \<lparr> getcwd = [''srv''], gettempdir = [''tmp''], candidate_names = [''tmpa''],
       json_load = (\<lambda>t. if t = ''{}'' then JsonOk else JSONDecodeError ''Expecting value''),
       run_proc = (\<lambda>cmd cwd t fs. (r, fs_converted)),
       zip_encode = (\<lambda>ms. concat (map (\<lambda>(n, b). n @ '':'' @ b @ '';'') ms)),
       exc_text = (\<lambda>e. ''exc'') \<rparr>"

definition upload :: "string \<Rightarrow> bytes \<Rightarrow> request" where
  "upload uid b =
     \<lparr> req_path = ''/convert'',
       content_type = Some ''multipart/form-data; boundary=x'',
       form_data =
         Inr [\<lparr> i_name = ''userId'', i_filename = None, i_value = uid, i_file = [] \<rparr>,
              \<lparr> i_name = ''chatFile'', i_filename = Some ''c.json'', i_value = [], i_file = b \<rparr>] \<rparr>"

definition s0 :: state where
  "s0 = \<lparr> disk = fs0, runs = [], tempdirs = [], archives = [] \<rparr>"

definition stub_launcher :: "(string \<Rightarrow> bool) \<Rightarrow> run_outcome \<Rightarrow> launcher_world" where
  "stub_launcher ex uv =
     \<lparr> os_path_exists = ex, uv_version = uv, argv = [''start_web_server.py''],
       int_of = (\<lambda>s. None), executable = ''python3'', server = Exited 0,
       str_exc = (\<lambda>e. ''exc'') \<rparr>"

section \<open>GET serves the form\<close>

text \<open>
  C8, as stated, fails: when \<^verbatim>\<open>webserver/index.html\<close> is a directory the read fails with
  \<^verbatim>\<open>IsADirectoryError\<close>, which \<open>do_GET\<close> does not catch, so no 404 is produced.
\<close>

theorem do_GET_read_failure_counterexample:
  "read_text (Dir [(''webserver'', Dir [(''index.html'', Dir [])])]) (index_html []) = Inl IsADirectoryError
   \<and> do_GET [] (Dir [(''webserver'', Dir [(''index.html'', Dir [])])]) ''/'' = Inl IsADirectoryError"
  by (simp add: do_GET_def read_text_def index_html_def)

text \<open>
  C8, amended: for a GET on the root path or the form path, if the file can be read
  the response is 200 with the text of the file as an HTML body, and if the file does not
  exist (\<^verbatim>\<open>FileNotFoundError\<close>) the response is 404.
\<close>

theorem do_GET_form:
  assumes "rpath = ''/'' \<or> rpath = ''/webserver/index.html''"
  shows "(read_text fs (index_html cwd) = Inr content \<longrightarrow>
            do_GET cwd fs rpath =
              Inr (Reply 200 [(''Content-type'', ''text/html; charset=utf-8'')] content))
       \<and> (read_text fs (index_html cwd) = Inl FileNotFoundError \<longrightarrow>
            do_GET cwd fs rpath = Inr (ErrorReply 404 ''index.html not found''))"
  using assms by (auto simp: do_GET_def)

theorem do_GET_form_witness:
  "do_GET [] (Dir [(''webserver'', Dir [(''index.html'', File ''<p>hi</p>'')])]) ''/''
     = Inr (Reply 200 [(''Content-type'', ''text/html; charset=utf-8'')] ''<p>hi</p>'')
   \<and> do_GET [] (Dir []) ''/webserver/index.html'' = Inr (ErrorReply 404 ''index.html not found'')"
proof -
  have a: "read_text (Dir [(''webserver'', Dir [(''index.html'', File ''<p>hi</p>'')])]) (index_html [])
             = Inr ''<p>hi</p>''"
    by (simp add: read_text_def index_html_def in_range_def)
  have b: "read_text (Dir []) (index_html []) = Inl FileNotFoundError"
    by (simp add: read_text_def index_html_def)
  show ?thesis
    using do_GET_form [of "''/''" "Dir [(''webserver'', Dir [(''index.html'', File ''<p>hi</p>'')])]" "[]" "''<p>hi</p>''"]
          do_GET_form [of "''/webserver/index.html''" "Dir []" "[]" "''x''"] a b
    by simp
qed

section \<open>Evaluation and frame lemmas\<close>

lemmas handler_defs =
  do_POST_def handle_convert_def with_tempdir_def convert_def run_conversion_def package_def
  subprocess_run_def validate_json_def read_text_def write_file_def read_bytes_def mkdir_def
  open_new_def os_walk_def zip_write_def relpath_def path_exists_def
  input_file_def output_dir_def chatgpt_output_dir_def zip_name_def convert_cmd_def zip_headers_def
  path_str_def form_has_def form_get_def startswith_def py_or_def in_range_def cont_byte_def
  dirnames_def filenames_def send_error_def latin1_ok_def internal_error_def os_error_def
  send_zip_def field_value_def NAME_MAX_def

lemmas stub_defs = stub_world_def upload_def s0_def fs0_def fs_converted_def

lemma send_error_ok: "latin1_ok m \<Longrightarrow> send_error c m = Inr (ErrorReply c m)"
  by (simp add: send_error_def)

lemma send_error_Inr: "send_error c m = Inr r \<Longrightarrow> r = ErrorReply c m \<and> latin1_ok m"
  by (simp add: send_error_def split: if_splits)

lemma send_error_Inl: "send_error c m = Inl e \<Longrightarrow> e = UnicodeEncodeError \<and> \<not> latin1_ok m"
  by (simp add: send_error_def split: if_splits)

lemma package_frame:
  "package w u d s = (r, s') \<Longrightarrow> runs s' = runs s \<and> tempdirs s' = tempdirs s"
  by (auto simp: package_def Let_def split: if_splits sum.splits prod.splits)

lemma package_archives:
  "package w u d s = (r, s') \<Longrightarrow> archives s' = archives s \<or> (\<exists>p. archives s' = archives s @ [p])"
  by (auto simp: package_def Let_def split: if_splits sum.splits prod.splits)

lemma subprocess_run_frame:
  "subprocess_run w cmd t s = (res, s') \<Longrightarrow>
     tempdirs s' = tempdirs s \<and> archives s' = archives s \<and>
     (runs s' = runs s \<and> res = ProcRaises ValueError \<and> s' = s \<or>
      runs s' = runs s @ [(cmd, t, res, disk s')])"
  by (auto simp: subprocess_run_def split: if_splits prod.splits)

lemma run_conversion_runs:
  "run_conversion w u d s = (r, s') \<Longrightarrow>
     tempdirs s' = tempdirs s \<and>
     (runs s' = runs s \<or>
      (\<exists>res fs. runs s' = runs s @ [(convert_cmd (fsencode u) d, 60, res, fs)]))"
  apply (simp add: run_conversion_def split: prod.splits proc_result.splits if_splits exn.splits)
  apply (auto dest!: subprocess_run_frame package_frame)
  done

lemma run_conversion_result:
  "run_conversion w u d s = (r, s') \<Longrightarrow> runs s' = runs s @ [(cmd, t, res, fs)] \<Longrightarrow>
     cmd = convert_cmd (fsencode u) d \<and> t = 60 \<and>
     (case res of
        Completed rc out err \<Rightarrow>
          (rc \<noteq> 0 \<longrightarrow>
             r = send_error 500 (''Conversion error: '' @ py_or err (py_or out ''Conversion failed''))
             \<and> archives s' = archives s)
      | TimeoutExpired \<Rightarrow> r = Inr (ErrorReply 500 ''Conversion timeout'') \<and> archives s' = archives s
      | ProcRaises e \<Rightarrow> archives s' = archives s)"
  apply (simp add: run_conversion_def send_error_def latin1_ok_def
      split: prod.splits proc_result.splits if_splits exn.splits)
  apply (auto dest!: subprocess_run_frame package_frame)
  done

lemma convert_result:
  "convert w u item d s = (r, s') \<Longrightarrow>
     runs s' = runs s \<and> archives s' = archives s \<and> tempdirs s' = tempdirs s \<or>
     (\<exists>s1. runs s1 = runs s \<and> archives s1 = archives s \<and> tempdirs s1 = tempdirs s \<and>
        run_conversion w u d s1 = (r, s'))"
  by (auto simp: convert_def send_error_def split: sum.splits json_result.splits if_splits)

lemma with_tempdir_result:
  "with_tempdir w body s = (r, s') \<Longrightarrow>
     s' = s \<or>
     (\<exists>d fs1 sb. mkdtemp (disk s) (gettempdir w) (candidate_names w) = Inr (d, fs1) \<and>
        body d (s\<lparr>disk := fs1, tempdirs := tempdirs s @ [d]\<rparr>) = (r, sb) \<and>
        s' = sb\<lparr>disk := rmtree (disk sb) d\<rparr>)"
  by (auto simp: with_tempdir_def split: sum.splits prod.splits)

lemma handle_convert_result:
  "handle_convert w req s = (r, s') \<Longrightarrow>
     s' = s \<or>
     (\<exists>form u file_item.
        form_data req = Inr form \<and>
        form_get form ''userId'' = Inr (Single u) \<and>
        form_get form ''chatFile'' = Inr (Single file_item) \<and>
        with_tempdir w (convert w (field_value u) file_item) s = (r, s'))"
  by (auto simp: handle_convert_def send_error_def split: option.splits if_splits sum.splits field.splits)

lemma do_POST_result:
  "do_POST w req s = (resp, s') \<Longrightarrow>
     s' = s \<or>
     (\<exists>r. handle_convert w req s = (r, s') \<and>
        resp = (case r of Inr x \<Rightarrow> x | Inl e \<Rightarrow> internal_error w e))"
  by (auto simp: do_POST_def split: if_splits prod.splits sum.splits)

lemma do_POST_run:
  assumes "do_POST w req s = (resp, s')" and "runs s' = runs s @ [(cmd, t, res, fs)]"
  shows "t = 60 \<and> (\<exists>u d. cmd = convert_cmd u d) \<and>
     (case res of
        Completed rc out err \<Rightarrow>
          (rc \<noteq> 0 \<longrightarrow>
             resp = (case send_error 500
                            (''Conversion error: '' @ py_or err (py_or out ''Conversion failed'')) of
                       Inr x \<Rightarrow> x | Inl e \<Rightarrow> internal_error w e)
             \<and> archives s' = archives s)
      | TimeoutExpired \<Rightarrow> resp = ErrorReply 500 ''Conversion timeout'' \<and> archives s' = archives s
      | ProcRaises e \<Rightarrow> archives s' = archives s)"
proof -
  from assms(2) have ne: "s' \<noteq> s" by auto
  with do_POST_result [OF assms(1)] obtain r where
    h: "handle_convert w req s = (r, s')" and
    resp: "resp = (case r of Inr x \<Rightarrow> x | Inl e \<Rightarrow> internal_error w e)"
    by auto
  from handle_convert_result [OF h] ne obtain u :: item and file_item :: item where
    wt: "with_tempdir w (convert w (field_value u) file_item) s = (r, s')" by auto
  from with_tempdir_result [OF wt] ne obtain d fs1 sb where
    body: "convert w (field_value u) file_item d (s\<lparr>disk := fs1, tempdirs := tempdirs s @ [d]\<rparr>) = (r, sb)"
    and s': "s' = sb\<lparr>disk := rmtree (disk sb) d\<rparr>" by auto
  from s' assms(2) have rb: "runs sb = runs s @ [(cmd, t, res, fs)]" by simp
  from convert_result [OF body] rb obtain s1 where
    s1: "runs s1 = runs (s\<lparr>disk := fs1, tempdirs := tempdirs s @ [d]\<rparr>)"
        "archives s1 = archives (s\<lparr>disk := fs1, tempdirs := tempdirs s @ [d]\<rparr>)" and
    rc: "run_conversion w (field_value u) d s1 = (r, sb)" by auto
  from rb s1 have "runs sb = runs s1 @ [(cmd, t, res, fs)]" by simp
  from run_conversion_result [OF rc this] s1 s' resp show ?thesis
    by (auto split: proc_result.splits)
qed

section \<open>POST: failures of the converter\<close>

lemma html_escape_append: "html_escape (a @ b) = html_escape a @ html_escape b"
  by (induction a) simp_all

lemma html_escape_plain:
  "CHR ''&'' \<notin> set m \<Longrightarrow> CHR ''<'' \<notin> set m \<Longrightarrow> CHR ''>'' \<notin> set m \<Longrightarrow> html_escape m = m"
  by (induction m) auto

lemma contains_prefix: "contains (x @ b) x"
proof (cases "x @ b")
  case Nil then show ?thesis by simp
next
  case (Cons c cs)
  have "take (length x) (x @ b) = x" by simp
  with Cons show ?thesis by (metis contains.simps(2))
qed

lemma contains_append: "contains b x \<Longrightarrow> contains (a @ b) x"
  by (induction a) simp_all

lemma error_page_contains: "contains (error_page code message) (html_escape message)"
  unfolding error_page_def by (intro contains_prefix contains_append)

text \<open>
  C5, as stated, fails: the body is the error page of the server library, which holds
  the message HTML-escaped, so for the captured error output \<^verbatim>\<open>a<b\<close> the body does not
  contain that output; and for captured output with a character outside latin-1 (here
  the euro sign) the status line cannot be encoded, and the body of the answer holds
  nothing of the output.
\<close>

theorem nonzero_exit_body_counterexample:
  "do_POST (stub_world (Completed 1 [] ''a<b'')) (upload ''u1'' ''{}'') s0 =
     (ErrorReply 500 ''Conversion error: a<b'',
      \<lparr>disk = fs0,
        runs = [(convert_cmd ''u1'' [''tmp'', ''tmpa''], 60, Completed 1 [] ''a<b'', fs_converted)],
        tempdirs = [[''tmp'', ''tmpa'']], archives = []\<rparr>)
   \<and> \<not> contains (body_of (ErrorReply 500 ''Conversion error: a<b'')) ''a<b''
   \<and> do_POST (stub_world (Completed 1 [] [CHR 0xE2, CHR 0x82, CHR 0xAC])) (upload ''u1'' ''{}'') s0 =
     (ErrorReply 500 ''Internal server error: exc'',
      \<lparr>disk = fs0,
        runs = [(convert_cmd ''u1'' [''tmp'', ''tmpa''], 60,
                 Completed 1 [] [CHR 0xE2, CHR 0x82, CHR 0xAC], fs_converted)],
        tempdirs = [[''tmp'', ''tmpa'']], archives = []\<rparr>)
   \<and> \<not> contains (body_of (ErrorReply 500 ''Internal server error: exc''))
          [CHR 0xE2, CHR 0x82, CHR 0xAC]"
  by (simp add: handler_defs stub_defs error_page_def explain_def str_nat.simps)

text \<open>
  C5, amended: when the handler has run the converter and it exited with a nonzero code,
  the response status is 500 and no archive file is opened; and when the captured
  standard error (or the captured standard output when that is empty, or the text
  \<^verbatim>\<open>Conversion failed\<close> when both are empty) can be encoded in latin-1, the response is
  the error page for the message \<^verbatim>\<open>Conversion error: \<close> followed by that text, and its
  body contains the message with the text HTML-escaped.
\<close>

theorem nonzero_exit_500:
  assumes "do_POST w req s = (resp, s')"
    and "runs s' = runs s @ [(cmd, t, Completed rc out err, fs)]"
    and "rc \<noteq> 0"
  shows "status resp = 500 \<and> archives s' = archives s \<and>
         (let msg = (if err \<noteq> [] then err else if out \<noteq> [] then out
                     else ''Conversion failed'')
          in latin1_ok msg \<longrightarrow>
               resp = ErrorReply 500 (''Conversion error: '' @ msg) \<and>
               contains (body_of resp) (''Conversion error: '' @ html_escape msg))"
proof -
  define msg where
    "msg = (if err \<noteq> [] then err else if out \<noteq> [] then out else ''Conversion failed'')"
  let ?m = "''Conversion error: '' @ msg"
  have py: "py_or err (py_or out ''Conversion failed'') = msg"
    by (simp add: py_or_def msg_def)
  from do_POST_run [OF assms(1) assms(2)] assms(3) py have
    resp: "resp = (case send_error 500 ?m of Inr x \<Rightarrow> x | Inl e \<Rightarrow> internal_error w e)"
    and ar: "archives s' = archives s" by simp_all
  have st: "status resp = 500"
    unfolding resp by (simp add: send_error_def internal_error_def os_error_def)
  have "resp = ErrorReply 500 ?m \<and> contains (body_of resp) (''Conversion error: '' @ html_escape msg)"
    if ok: "latin1_ok msg"
  proof -
    from ok have "latin1_ok ?m" by (simp add: latin1_ok_def)
    then have r: "resp = ErrorReply 500 ?m" unfolding resp by (simp add: send_error_def)
    have "html_escape ?m = ''Conversion error: '' @ html_escape msg"
      unfolding html_escape_append by simp
    with error_page_contains [of 500 ?m] r show ?thesis by simp
  qed
  with st ar show ?thesis unfolding Let_def msg_def by blast
qed

theorem nonzero_exit_500_witness:
  "\<exists>resp s'. do_POST (stub_world (Completed 1 ''out'' [])) (upload ''u1'' ''{}'') s0 = (resp, s')
     \<and> runs s' = runs s0 @ [(convert_cmd ''u1'' [''tmp'', ''tmpa''], 60, Completed 1 ''out'' [], fs_converted)]
     \<and> status resp = 500 \<and> archives s' = archives s0 \<and> latin1_ok ''out''
     \<and> resp = ErrorReply 500 ''Conversion error: out''
     \<and> contains (body_of resp) ''Conversion error: out''"
proof -
  have ev: "do_POST (stub_world (Completed 1 ''out'' [])) (upload ''u1'' ''{}'') s0 =
     (ErrorReply 500 ''Conversion error: out'',
      \<lparr>disk = fs0, runs = [(convert_cmd ''u1'' [''tmp'', ''tmpa''], 60, Completed 1 ''out'' [], fs_converted)],
        tempdirs = [[''tmp'', ''tmpa'']], archives = []\<rparr>)"
    by (simp add: handler_defs stub_defs)
  have r: "runs \<lparr>disk = fs0, runs = [(convert_cmd ''u1'' [''tmp'', ''tmpa''], 60, Completed 1 ''out'' [], fs_converted)],
        tempdirs = [[''tmp'', ''tmpa'']], archives = []\<rparr>
      = runs s0 @ [(convert_cmd ''u1'' [''tmp'', ''tmpa''], 60, Completed 1 ''out'' [], fs_converted)]"
    by (simp add: s0_def)
  have "(1::int) \<noteq> 0" by simp
  from nonzero_exit_500 [OF ev r this] ev r show ?thesis by (simp add: latin1_ok_def Let_def)
qed

text \<open>
  C6: when the handler has run the converter and it did not finish within the timeout,
  the timeout was 60 and the response is a 500 with the fixed message
  \<^verbatim>\<open>Conversion timeout\<close>.
\<close>

theorem timeout_500:
  assumes "do_POST w req s = (resp, s')"
    and "runs s' = runs s @ [(cmd, t, TimeoutExpired, fs)]"
  shows "t = 60 \<and> resp = ErrorReply 500 ''Conversion timeout''"
  using do_POST_run [OF assms] by simp

theorem timeout_500_witness:
  "\<exists>resp s'. do_POST (stub_world TimeoutExpired) (upload ''u1'' ''{}'') s0 = (resp, s')
     \<and> runs s' = runs s0 @ [(convert_cmd ''u1'' [''tmp'', ''tmpa''], 60, TimeoutExpired, fs_converted)]
     \<and> resp = ErrorReply 500 ''Conversion timeout''"
proof -
  have ev: "do_POST (stub_world TimeoutExpired) (upload ''u1'' ''{}'') s0 =
     (ErrorReply 500 ''Conversion timeout'',
      \<lparr>disk = fs0, runs = [(convert_cmd ''u1'' [''tmp'', ''tmpa''], 60, TimeoutExpired, fs_converted)],
        tempdirs = [[''tmp'', ''tmpa'']], archives = []\<rparr>)"
    by (simp add: handler_defs stub_defs)
  have r: "runs \<lparr>disk = fs0, runs = [(convert_cmd ''u1'' [''tmp'', ''tmpa''], 60, TimeoutExpired, fs_converted)],
        tempdirs = [[''tmp'', ''tmpa'']], archives = []\<rparr>
      = runs s0 @ [(convert_cmd ''u1'' [''tmp'', ''tmpa''], 60, TimeoutExpired, fs_converted)]"
    by (simp add: s0_def)
  from timeout_500 [OF ev r] ev r show ?thesis by simp
qed

section \<open>POST: the content type\<close>

text \<open>
  C7 asks for a 400-class status whenever the body is not multipart, also when the
  Content-Type header is missing. Without the header, \<^verbatim>\<open>self.headers['content-type']\<close>
  is \<^verbatim>\<open>None\<close>, \<^verbatim>\<open>None.startswith\<close> raises \<^verbatim>\<open>AttributeError\<close> and the handler answers 500.
\<close>

theorem missing_content_type_500:
  "do_POST w \<lparr>req_path = ''/convert'', content_type = None, form_data = fd\<rparr> s =
     (ErrorReply 500 (''Internal server error: '' @ exc_text w AttributeError), s)"
  by (simp add: do_POST_def handle_convert_def internal_error_def os_error_def)

lemma not_multipart_400:
  "req_path req = ''/convert'' \<Longrightarrow> content_type req = Some ct \<Longrightarrow>
   \<not> startswith ct ''multipart/form-data'' \<Longrightarrow>
   do_POST w req s = (ErrorReply 400 ''Expected multipart/form-data'', s)"
  by (simp add: do_POST_def handle_convert_def send_error_def latin1_ok_def)

section \<open>POST: the uploaded file\<close>

text \<open>A file that decodes but does not parse is answered with 400, when the detail of
  the parse error can be encoded.\<close>

lemma invalid_json_400:
  assumes "write_file (disk s) (input_file d) (i_file fi) = Inr fs1"
    and "validate_json w fs1 (input_file d) = JSONDecodeError detail"
    and "latin1_ok detail"
  shows "convert w uid fi d s =
           (Inr (ErrorReply 400 (''Invalid JSON file: '' @ detail)), s\<lparr>disk := fs1\<rparr>)"
  using assms by (simp add: convert_def send_error_def latin1_ok_def)

text \<open>
  C3 asks for a 400 whenever the uploaded bytes are not valid JSON. The single byte
  \<^verbatim>\<open>0xFF\<close> is not valid JSON, but reading it as UTF-8 raises \<^verbatim>\<open>UnicodeDecodeError\<close>, which
  is not a \<^verbatim>\<open>JSONDecodeError\<close>: the handler answers 500, whatever the JSON parser would
  say. No converter is run.
\<close>

theorem undecodable_upload_500:
  "do_POST (stub_world r\<lparr>json_load := j\<rparr>) (upload uid [CHR 0xFF]) s0 =
     (ErrorReply 500 ''Internal server error: exc'',
      \<lparr>disk = fs0, runs = [], tempdirs = [[''tmp'', ''tmpa'']], archives = []\<rparr>)"
  by (simp add: handler_defs stub_defs)

section \<open>POST: the form fields\<close>

lemma form_get_missing: "\<not> form_has form key \<Longrightarrow> form_get form key = Inl KeyError"
proof -
  assume "\<not> form_has form key"
  then have "filter (\<lambda>i. i_name i = key) form = []"
    by (simp add: form_has_def list_ex_iff filter_empty_conv)
  then show ?thesis by (simp add: form_get_def)
qed

lemma form_get_has: "form_get form key = Inr x \<Longrightarrow> form_has form key"
  using form_get_missing [of form key] by auto

text \<open>With one \<^verbatim>\<open>userId\<close> part at most, each missing field is answered with its 400, and
  the state is unchanged: no temporary directory is created and no converter is run.\<close>

lemma missing_fields_400:
  assumes "req_path req = ''/convert''"
    and "content_type req = Some ct" and "startswith ct ''multipart/form-data''"
    and "form_data req = Inr form"
  shows "(\<not> form_has form ''userId'' \<longrightarrow>
            do_POST w req s = (ErrorReply 400 ''Missing userId field'', s))
       \<and> (form_get form ''userId'' = Inr (Single u) \<and> \<not> form_has form ''chatFile'' \<longrightarrow>
            do_POST w req s = (ErrorReply 400 ''Missing chatFile field'', s))
       \<and> (form_get form ''userId'' = Inr (Single u) \<and> form_get form ''chatFile'' = Inr (Single f)
            \<and> (i_filename f = None \<or> i_filename f = Some []) \<longrightarrow>
            do_POST w req s = (ErrorReply 400 ''No file selected'', s))"
  using assms form_get_has [of form "''userId''"] form_get_has [of form "''chatFile''"]
  by (auto simp: do_POST_def handle_convert_def send_error_def latin1_ok_def)

text \<open>
  C4 asks for a 400, before any converter is run, when the \<^verbatim>\<open>chatFile\<close> field is
  missing. A form with two \<^verbatim>\<open>userId\<close> parts and no \<^verbatim>\<open>chatFile\<close> part lacks the file field,
  yet \<^verbatim>\<open>form['userId']\<close> is then a list, \<^verbatim>\<open>.value\<close> raises \<^verbatim>\<open>AttributeError\<close> before the
  file field is looked at, and the answer is 500 instead of the 400 of the check two
  lines below. No converter is run.
\<close>

theorem duplicate_userId_500:
  "\<not> form_has [\<lparr>i_name = ''userId'', i_filename = None, i_value = ''a'', i_file = []\<rparr>,
                 \<lparr>i_name = ''userId'', i_filename = None, i_value = ''b'', i_file = []\<rparr>] ''chatFile''
   \<and> do_POST (stub_world TimeoutExpired)
        \<lparr>req_path = ''/convert'', content_type = Some ''multipart/form-data; boundary=x'',
          form_data = Inr [\<lparr>i_name = ''userId'', i_filename = None, i_value = ''a'', i_file = []\<rparr>,
                           \<lparr>i_name = ''userId'', i_filename = None, i_value = ''b'', i_file = []\<rparr>]\<rparr> s0
       = (ErrorReply 500 ''Internal server error: exc'', s0)"
  by (simp add: handler_defs stub_defs)

section \<open>The launcher stops when a prerequisite is missing\<close>

lemmas launcher_defs = launcher_def main_def check_dependencies_def banner_def start_server_def
  server_cmd_def

text \<open>
  C9: when one of the required files is missing, or \<^verbatim>\<open>uv --version\<close> exits with a nonzero
  code or cannot be started, the launcher ends with a nonzero exit status, never runs the
  server command and never starts the browser timer, and the reason is reported: the list
  of missing files, or the warning that \<^verbatim>\<open>uv\<close> was not found, or, for an error other
  than \<^verbatim>\<open>FileNotFoundError\<close>, the traceback of the exception that ends the process.
\<close>

theorem launcher_aborts:
  assumes "(\<exists>f \<in> set required_files. \<not> os_path_exists w f)
         \<or> (\<exists>rc. uv_version w = Exited rc \<and> rc \<noteq> 0)
         \<or> (\<exists>e. uv_version w = Failed e)"
  shows "fst (launcher w) \<noteq> 0
       \<and> (\<forall>port. Run (server_cmd w port) \<notin> set (snd (launcher w)))
       \<and> (\<forall>delay url. StartTimer delay url \<notin> set (snd (launcher w)))
       \<and> ((\<exists>f \<in> set required_files. \<not> os_path_exists w f) \<longrightarrow>
            Print (''Error: Missing required files: '' @
                   join_comma (filter (\<lambda>f. \<not> os_path_exists w f) required_files))
              \<in> set (snd (launcher w)))
       \<and> ((\<forall>f \<in> set required_files. os_path_exists w f) \<and>
            ((\<exists>rc. uv_version w = Exited rc \<and> rc \<noteq> 0) \<or> uv_version w = Failed FileNotFoundError) \<longrightarrow>
            Print ''Warning: 'uv' command not found. Make sure uv is installed and in your PATH.''
              \<in> set (snd (launcher w)))
       \<and> (\<forall>e. (\<forall>f \<in> set required_files. os_path_exists w f) \<and>
            uv_version w = Failed e \<and> e \<noteq> FileNotFoundError \<longrightarrow>
            Traceback (Exc e) \<in> set (snd (launcher w)))"
proof (cases "filter (\<lambda>f. \<not> os_path_exists w f) required_files = []")
  case False
  then have ex: "\<exists>f \<in> set required_files. \<not> os_path_exists w f"
    by (auto simp: filter_empty_conv)
  from False have "launcher w =
      (1, banner @ [Print (''Error: Missing required files: '' @
                     join_comma (filter (\<lambda>f. \<not> os_path_exists w f) required_files)),
                    Print (CHR 0x0A # ''Please fix the above issues and try again.'')])"
    by (simp add: launcher_def main_def check_dependencies_def Let_def)
  with ex show ?thesis by (auto simp: banner_def server_cmd_def)
next
  case True
  then have nex: "\<not> (\<exists>f \<in> set required_files. \<not> os_path_exists w f)"
    by (auto simp: filter_empty_conv)
  with assms consider
      (rc) rc where "uv_version w = Exited rc" "rc \<noteq> 0"
    | (nf) "uv_version w = Failed FileNotFoundError"
    | (ex) e where "uv_version w = Failed e" "e \<noteq> FileNotFoundError"
    by blast
  then show ?thesis
  proof cases
    case rc
    with True nex show ?thesis
      by (simp add: launcher_def main_def check_dependencies_def Let_def banner_def server_cmd_def)
  next
    case nf
    with True nex show ?thesis
      by (simp add: launcher_def main_def check_dependencies_def Let_def banner_def server_cmd_def)
  next
    case ex
    with True nex show ?thesis
      by (cases e) (simp_all add: launcher_def main_def check_dependencies_def Let_def banner_def server_cmd_def)
  qed
qed

theorem launcher_aborts_witness:
  "fst (launcher (stub_launcher (\<lambda>f. f \<noteq> ''convert_chatgpt.py'') (Exited 0))) = 1
   \<and> Print ''Error: Missing required files: convert_chatgpt.py''
        \<in> set (snd (launcher (stub_launcher (\<lambda>f. f \<noteq> ''convert_chatgpt.py'') (Exited 0))))
   \<and> fst (launcher (stub_launcher (\<lambda>f. True) (Failed FileNotFoundError))) = 1
   \<and> Print ''Warning: 'uv' command not found. Make sure uv is installed and in your PATH.''
        \<in> set (snd (launcher (stub_launcher (\<lambda>f. True) (Failed FileNotFoundError))))
   \<and> (\<forall>port. Run (server_cmd (stub_launcher (\<lambda>f. True) (Failed FileNotFoundError)) port)
        \<notin> set (snd (launcher (stub_launcher (\<lambda>f. True) (Failed FileNotFoundError)))))"
proof -
  have a: "fst (launcher (stub_launcher (\<lambda>f. f \<noteq> ''convert_chatgpt.py'') (Exited 0))) = 1"
    by (simp add: launcher_defs stub_launcher_def required_files_def)
  have b: "fst (launcher (stub_launcher (\<lambda>f. True) (Failed FileNotFoundError))) = 1"
    by (simp add: launcher_defs stub_launcher_def required_files_def)
  have f: "filter (\<lambda>f. \<not> os_path_exists (stub_launcher (\<lambda>f. f \<noteq> ''convert_chatgpt.py'') (Exited 0)) f)
             required_files = [''convert_chatgpt.py'']"
    by (simp add: stub_launcher_def required_files_def)
  have h1: "\<exists>f \<in> set required_files.
              \<not> os_path_exists (stub_launcher (\<lambda>f. f \<noteq> ''convert_chatgpt.py'') (Exited 0)) f"
    by (simp add: stub_launcher_def required_files_def)
  have h2: "\<exists>e. uv_version (stub_launcher (\<lambda>f. True) (Failed FileNotFoundError)) = Failed e"
    by (simp add: stub_launcher_def)
  have n2: "\<not> (\<exists>f \<in> set required_files.
              \<not> os_path_exists (stub_launcher (\<lambda>f. True) (Failed FileNotFoundError)) f)"
    by (simp add: stub_launcher_def)
  have u2: "uv_version (stub_launcher (\<lambda>f. True) (Failed FileNotFoundError)) = Failed FileNotFoundError"
    by (simp add: stub_launcher_def)
  from launcher_aborts [of "stub_launcher (\<lambda>f. f \<noteq> ''convert_chatgpt.py'') (Exited 0)"] h1 f
  have c1: "Print ''Error: Missing required files: convert_chatgpt.py''
        \<in> set (snd (launcher (stub_launcher (\<lambda>f. f \<noteq> ''convert_chatgpt.py'') (Exited 0))))"
    by simp
  from launcher_aborts [of "stub_launcher (\<lambda>f. True) (Failed FileNotFoundError)"] h2 n2 u2
  have c2: "Print ''Warning: 'uv' command not found. Make sure uv is installed and in your PATH.''
        \<in> set (snd (launcher (stub_launcher (\<lambda>f. True) (Failed FileNotFoundError))))
      \<and> (\<forall>port. Run (server_cmd (stub_launcher (\<lambda>f. True) (Failed FileNotFoundError)) port)
        \<notin> set (snd (launcher (stub_launcher (\<lambda>f. True) (Failed FileNotFoundError)))))"
    by simp
  from a b c1 c2 show ?thesis by simp
qed

section \<open>POST: the temporary directory is always removed\<close>

lemma rmtree_gone: "p \<noteq> [] \<Longrightarrow> \<not> path_exists (rmtree fs p) (p @ q)"
proof (induction fs p rule: rmtree.induct)
  case (1 t)
  then show ?case by simp
next
  case (2 b c cs)
  then show ?case by (simp add: path_exists_def)
next
  case (3 es c)
  then show ?case by (simp add: path_exists_def delete_conv')
next
  case (4 es c d cs)
  show ?case
  proof (cases "map_of es c")
    case None
    then show ?thesis by (simp add: path_exists_def)
  next
    case (Some n)
    with "4.IH" [of n] show ?thesis
      by (simp add: path_exists_def update_conv')
  qed
qed

lemma mkdtemp_nonempty: "mkdtemp fs dir ns = Inr (d, fs') \<Longrightarrow> d \<noteq> []"
  by (induction ns) (auto split: sum.splits exn.splits)

lemma convert_tempdirs: "convert w u item d s = (r, s') \<Longrightarrow> tempdirs s' = tempdirs s"
  using convert_result [of w u item d s r s'] run_conversion_runs [of w u d _ r s'] by auto

text \<open>
  C2: whenever the handler has created its temporary directory \<open>d\<close>, nothing exists at
  \<open>d\<close> or below it once the handler has returned, whatever the response was: success,
  a client error, a failed or timed-out converter, or an exception.
\<close>

theorem tempdir_removed:
  assumes "do_POST w req s = (resp, s')" and "tempdirs s' = tempdirs s @ [d]"
  shows "\<forall>p. \<not> path_exists (disk s') (d @ p)"
proof -
  from assms(2) have ne: "s' \<noteq> s" by auto
  with do_POST_result [OF assms(1)] obtain r where
    h: "handle_convert w req s = (r, s')" by auto
  from handle_convert_result [OF h] ne obtain u :: item and file_item :: item where
    wt: "with_tempdir w (convert w (field_value u) file_item) s = (r, s')" by auto
  from with_tempdir_result [OF wt] ne obtain d' fs1 sb where
    mk: "mkdtemp (disk s) (gettempdir w) (candidate_names w) = Inr (d', fs1)" and
    body: "convert w (field_value u) file_item d' (s\<lparr>disk := fs1, tempdirs := tempdirs s @ [d']\<rparr>) = (r, sb)"
    and s': "s' = sb\<lparr>disk := rmtree (disk sb) d'\<rparr>" by auto
  from convert_tempdirs [OF body] s' assms(2) have "d' = d" by simp
  with mkdtemp_nonempty [OF mk] s' show ?thesis
    by (simp add: rmtree_gone)
qed

theorem tempdir_removed_witness:
  "\<exists>resp s'. do_POST (stub_world (Completed 0 [] [])) (upload ''u1'' ''{}'') s0 = (resp, s')
     \<and> status resp = 200
     \<and> tempdirs s' = tempdirs s0 @ [[''tmp'', ''tmpa'']]
     \<and> (\<forall>p. \<not> path_exists (disk s') ([''tmp'', ''tmpa''] @ p))"
proof -
  obtain resp s' where ev: "do_POST (stub_world (Completed 0 [] [])) (upload ''u1'' ''{}'') s0 = (resp, s')"
    by (cases "do_POST (stub_world (Completed 0 [] [])) (upload ''u1'' ''{}'') s0")
  have st: "status (fst (do_POST (stub_world (Completed 0 [] [])) (upload ''u1'' ''{}'') s0)) = 200"
    by (simp add: handler_defs stub_defs Let_def str_nat.simps digit_char_def)
  have td: "tempdirs (snd (do_POST (stub_world (Completed 0 [] [])) (upload ''u1'' ''{}'') s0))
              = tempdirs s0 @ [[''tmp'', ''tmpa'']]"
    by (simp add: handler_defs stub_defs Let_def str_nat.simps digit_char_def)
  from ev td have td': "tempdirs s' = tempdirs s0 @ [[''tmp'', ''tmpa'']]" by simp
  from tempdir_removed [OF ev td'] ev st td' show ?thesis by simp
qed

section \<open>POST: building the archive\<close>




























section \<open>POST: a successful conversion\<close>





section \<open>POST: the identifier is used as it is\<close>














end
